theory Spec2Isabelle
  imports Complex_Main "HOL-Library.Log_Nat"
begin

section \<open>JavaScript numbers\<close>

text \<open>
  Every coordinate that \<^verbatim>\<open>App.vue\<close> adds, divides or passes to the canvas is a
  JavaScript Number, an IEEE 754 binary64 value. A finite value is kept as the rational it
  denotes; the two infinities and NaN are constructors of their own. The model has a single
  zero: \<^verbatim>\<open>-0\<close> and \<^verbatim>\<open>+0\<close>, which \<^verbatim>\<open>===\<close> does not tell apart, are both \<open>Fin 0\<close>.
\<close>

datatype number = Fin rat | PosInf | NegInf | NaN

definition pow2 :: "int \<Rightarrow> rat" where
  "pow2 k = (if 0 \<le> k then 2 ^ nat k else 1 / 2 ^ nat (- k))"

text \<open>\<open>floor_log2 q\<close> is the integer \<open>k\<close> with \<open>2^k \<le> q < 2^(k+1)\<close>, for \<open>0 < q\<close>.\<close>

definition floor_log2 :: "rat \<Rightarrow> int" where
  "floor_log2 q = (if 1 \<le> q then bitlen \<lfloor>q\<rfloor> - 1 else - bitlen (\<lceil>1 / q\<rceil> - 1))"

definition round_half_even :: "rat \<Rightarrow> int" where
  "round_half_even r =
     (let f = \<lfloor>r\<rfloor>; d = r - of_int f
      in if d < 1 / 2 then f else if 1 / 2 < d then f + 1 else if even f then f else f + 1)"

text \<open>
  Rounding of an exact result to binary64, to nearest with ties to even: 53 significant
  bits, the spacing never below \<open>2^-1074\<close> (subnormals), and overflow to an infinity once
  the rounded magnitude reaches \<open>2^1024\<close>.
\<close>

definition to_double :: "rat \<Rightarrow> number" where
  "to_double q =
     (if q = 0 then Fin 0
      else let e = max (floor_log2 \<bar>q\<bar> - 52) (- 1074);
               r = of_int (round_half_even (q / pow2 e)) * pow2 e
           in if 2 ^ 1024 \<le> r then PosInf else if r \<le> - (2 ^ 1024) then NegInf else Fin r)"

text \<open>A rational is a binary64 value when rounding leaves it alone.\<close>

definition is_double :: "number \<Rightarrow> bool" where
  "is_double v = (case v of Fin q \<Rightarrow> to_double q = Fin q | _ \<Rightarrow> True)"

text \<open>The operators \<^verbatim>\<open>+\<close>, unary \<^verbatim>\<open>-\<close>, binary \<^verbatim>\<open>-\<close> and \<^verbatim>\<open>/\<close> on Numbers.\<close>

fun num_add :: "number \<Rightarrow> number \<Rightarrow> number" where
  "num_add NaN _ = NaN"
| "num_add _ NaN = NaN"
| "num_add PosInf NegInf = NaN"
| "num_add NegInf PosInf = NaN"
| "num_add PosInf _ = PosInf"
| "num_add _ PosInf = PosInf"
| "num_add NegInf _ = NegInf"
| "num_add _ NegInf = NegInf"
| "num_add (Fin a) (Fin b) = to_double (a + b)"

fun num_neg :: "number \<Rightarrow> number" where
  "num_neg (Fin a) = Fin (- a)"
| "num_neg PosInf = NegInf"
| "num_neg NegInf = PosInf"
| "num_neg NaN = NaN"

definition num_sub :: "number \<Rightarrow> number \<Rightarrow> number" where
  "num_sub a b = num_add a (num_neg b)"

text \<open>
  Division. A zero divisor is \<^verbatim>\<open>+0\<close> (the only divisor of the program is an array
  length), so a non-zero dividend keeps its sign on the way to infinity.
\<close>

fun num_div :: "number \<Rightarrow> number \<Rightarrow> number" where
  "num_div NaN _ = NaN"
| "num_div _ NaN = NaN"
| "num_div (Fin a) (Fin b) =
     (if b = 0 then (if a = 0 then NaN else if 0 < a then PosInf else NegInf)
      else to_double (a / b))"
| "num_div (Fin a) _ = Fin 0"
| "num_div PosInf (Fin b) = (if 0 \<le> b then PosInf else NegInf)"
| "num_div NegInf (Fin b) = (if 0 \<le> b then NegInf else PosInf)"
| "num_div _ _ = NaN"

text \<open>
  An array length or a canvas dimension as a Number: both are integers below \<open>2^32\<close>,
  which binary64 holds exactly.
\<close>

definition number_of_nat :: "nat \<Rightarrow> number" where
  "number_of_nat n = Fin (of_nat n)"


section \<open>The centroid of a landmark group\<close>

text \<open>
  A point is the array \<^verbatim>\<open>[x, y, ...]\<close> of which the code reads \<^verbatim>\<open>p[0]\<close> and
  \<^verbatim>\<open>p[1]\<close>; an entry that is missing reads as \<^verbatim>\<open>undefined\<close> and is \<open>NaN\<close> in
  arithmetic. The argument of \<^verbatim>\<open>getCenter\<close> is \<open>None\<close> for \<^verbatim>\<open>null\<close> or
  \<^verbatim>\<open>undefined\<close>. The returned object \<^verbatim>\<open>{ x: ..., y: ... }\<close> is the pair \<open>(x, y)\<close>.
  \<^verbatim>\<open>
  getCenter(points) {
    if (!points || points.length === 0) return { x: 0, y: 0 };
    let sumX = 0, sumY = 0;
    points.forEach((p) => { sumX += p[0]; sumY += p[1]; });
    return { x: sumX / points.length, y: sumY / points.length };
  }
  \<close>
\<close>

type_synonym point = "number \<times> number"

definition getCenter :: "point list option \<Rightarrow> number \<times> number" where
  "getCenter points =
     (case points of
        None \<Rightarrow> (Fin 0, Fin 0)
      | Some ps \<Rightarrow>
          if length ps = 0 then (Fin 0, Fin 0)
          else
            let (sumX, sumY) =
                  foldl (\<lambda>(sumX, sumY) p. (num_add sumX (fst p), num_add sumY (snd p)))
                    (Fin 0, Fin 0) ps
            in (num_div sumX (number_of_nat (length ps)), num_div sumY (number_of_nat (length ps))))"


section \<open>Exceptions\<close>

text \<open>
  A thrown value is an \<^verbatim>\<open>Error\<close> object, of which the handlers read \<^verbatim>\<open>message\<close>
  only. A block that may throw returns the error, if any, beside the state reached when
  it stopped; \<open>then_do\<close> runs the next statement unless the previous one threw.
\<close>

datatype js_error = JsError (message: string)

definition then_do ::
  "js_error option \<times> 's \<Rightarrow> ('s \<Rightarrow> js_error option \<times> 's) \<Rightarrow> js_error option \<times> 's" where
  "then_do r f = (case r of (None, s) \<Rightarrow> f s | (Some e, s) \<Rightarrow> (Some e, s))"

fun forEach_try :: "('a \<Rightarrow> 's \<Rightarrow> js_error option \<times> 's) \<Rightarrow> 'a list \<Rightarrow> 's \<Rightarrow> js_error option \<times> 's" where
  "forEach_try f [] s = (None, s)"
| "forEach_try f (x # xs) s = then_do (f x s) (forEach_try f xs)"

text \<open>
  The \<^verbatim>\<open>TypeError\<close> of a property read on \<^verbatim>\<open>undefined\<close> or \<^verbatim>\<open>null\<close>; the wording
  of its message is the engine's (here V8's).
\<close>

definition TypeError_read :: "string \<Rightarrow> string \<Rightarrow> js_error" where
  "TypeError_read base prop =
     JsError (''Cannot read properties of '' @ base @ '' (reading '' @ [CHR 0x27] @ prop
       @ [CHR 0x27] @ '')'')"


section \<open>The drawing surface\<close>

text \<open>
  The canvas element with its 2D context (\<^verbatim>\<open>this.canvas\<close> and \<^verbatim>\<open>this.ctx\<close> are two
  references into this one object). What the bitmap shows is the list of layers painted
  since it was last blank; \<open>ctx_calls\<close> records every operation made on the context.
\<close>

datatype layer =
    Circle number number number string
  | Label string number number string string
  | Erased number number number number

datatype ctx_call =
    ClearRect number number number number
  | BeginPath
  | Arc number number number
  | SetFillStyle string
  | Fill
  | SetFont string
  | FillText string number number

record canvas_el =
  width :: nat
  height :: nat
  fillStyle :: string
  font :: string
  path :: "(number \<times> number \<times> number) list"
  surface :: "layer list"
  ctx_calls :: "ctx_call list"

definition is_finite :: "number \<Rightarrow> bool" where
  "is_finite v = (case v of Fin _ \<Rightarrow> True | _ \<Rightarrow> False)"

text \<open>
  \<^verbatim>\<open>clearRect(x, y, w, h)\<close> does nothing when an argument is not finite. A rectangle that
  covers the whole bitmap leaves it blank; a smaller one is one more layer.
\<close>

definition clearRect :: "number \<Rightarrow> number \<Rightarrow> number \<Rightarrow> number \<Rightarrow> canvas_el \<Rightarrow> canvas_el" where
  "clearRect x y w h cv =
     (let cv' = cv\<lparr>ctx_calls := ctx_calls cv @ [ClearRect x y w h]\<rparr>
      in case (x, y, w, h) of
           (Fin a, Fin b, Fin c, Fin d) \<Rightarrow>
             if min a (a + c) \<le> 0 \<and> of_nat (width cv) \<le> max a (a + c)
                \<and> min b (b + d) \<le> 0 \<and> of_nat (height cv) \<le> max b (b + d)
             then cv'\<lparr>surface := []\<rparr>
             else cv'\<lparr>surface := surface cv @ [Erased x y w h]\<rparr>
         | _ \<Rightarrow> cv')"

definition beginPath :: "canvas_el \<Rightarrow> canvas_el" where
  "beginPath cv = cv\<lparr>path := [], ctx_calls := ctx_calls cv @ [BeginPath]\<rparr>"

text \<open>\<^verbatim>\<open>arc(x, y, r, 0, 2 * Math.PI)\<close>: the full circle, the only arc the program draws.\<close>

definition arc :: "number \<Rightarrow> number \<Rightarrow> number \<Rightarrow> canvas_el \<Rightarrow> canvas_el" where
  "arc x y r cv =
     (let cv' = cv\<lparr>ctx_calls := ctx_calls cv @ [Arc x y r]\<rparr>
      in if is_finite x \<and> is_finite y \<and> is_finite r then cv'\<lparr>path := path cv @ [(x, y, r)]\<rparr>
         else cv')"

definition set_fillStyle :: "string \<Rightarrow> canvas_el \<Rightarrow> canvas_el" where
  "set_fillStyle c cv = cv\<lparr>fillStyle := c, ctx_calls := ctx_calls cv @ [SetFillStyle c]\<rparr>"

definition set_font :: "string \<Rightarrow> canvas_el \<Rightarrow> canvas_el" where
  "set_font f cv = cv\<lparr>font := f, ctx_calls := ctx_calls cv @ [SetFont f]\<rparr>"

definition fill :: "canvas_el \<Rightarrow> canvas_el" where
  "fill cv =
     cv\<lparr>surface := surface cv @ map (\<lambda>(x, y, r). Circle x y r (fillStyle cv)) (path cv),
        ctx_calls := ctx_calls cv @ [Fill]\<rparr>"

definition fillText :: "string \<Rightarrow> number \<Rightarrow> number \<Rightarrow> canvas_el \<Rightarrow> canvas_el" where
  "fillText label x y cv =
     (let cv' = cv\<lparr>ctx_calls := ctx_calls cv @ [FillText label x y]\<rparr>
      in if is_finite x \<and> is_finite y
         then cv'\<lparr>surface := surface cv @ [Label label x y (font cv) (fillStyle cv)]\<rparr>
         else cv')"

text \<open>
  \<^verbatim>\<open>
  drawLabel(x, y, label) {
    this.ctx.font = '14px Arial';
    this.ctx.fillStyle = 'blue';
    this.ctx.fillText(label, x, y);
  }
  \<close>
\<close>

definition drawLabel :: "number \<Rightarrow> number \<Rightarrow> string \<Rightarrow> canvas_el \<Rightarrow> canvas_el" where
  "drawLabel x y label cv = fillText label x y (set_fillStyle ''blue'' (set_font ''14px Arial'' cv))"


section \<open>Rendering one result\<close>

text \<open>
  A result of the detector: \<^verbatim>\<open>keypoints\<close> and \<^verbatim>\<open>annotations\<close>, the object that maps a
  group name to the points of the group. \<open>annotations = None\<close> is a result without that
  property; a group that the object lacks is \<open>None\<close> in the map.
\<close>

record prediction =
  keypoints :: "point list"
  annotations :: "(string \<rightharpoonup> point list) option"

text \<open>The callback of \<^verbatim>\<open>keypoints.forEach\<close>.\<close>

definition draw_keypoint :: "point \<Rightarrow> canvas_el \<Rightarrow> canvas_el" where
  "draw_keypoint point cv =
     fill (set_fillStyle ''red'' (arc (fst point) (snd point) (Fin 2) (beginPath cv)))"

text \<open>The callback of \<^verbatim>\<open>predictions.forEach\<close>.\<close>

definition render_prediction :: "prediction \<Rightarrow> canvas_el \<Rightarrow> js_error option \<times> canvas_el" where
  "render_prediction pr cv =
     (let cv1 = foldl (\<lambda>c point. draw_keypoint point c) cv (keypoints pr)
      in case annotations pr of
           None \<Rightarrow> (Some (TypeError_read ''undefined'' ''leftEyeUpper0''), cv1)
         | Some ann \<Rightarrow>
             let leftEyeCenter = getCenter (ann ''leftEyeUpper0'');
                 cv2 = drawLabel (fst leftEyeCenter) (num_sub (snd leftEyeCenter) (Fin 20))
                         ''Left Eye'' cv1;
                 rightEyeCenter = getCenter (ann ''rightEyeUpper0'');
                 cv3 = drawLabel (fst rightEyeCenter) (num_sub (snd rightEyeCenter) (Fin 20))
                         ''Right Eye'' cv2;
                 noseCenter = getCenter (ann ''noseBottom'');
                 cv4 = drawLabel (fst noseCenter) (num_add (snd noseCenter) (Fin 10))
                         ''Nose'' cv3;
                 mouthCenter = getCenter (ann ''lipsUpperOuter'');
                 cv5 = drawLabel (fst mouthCenter) (num_add (snd mouthCenter) (Fin 20))
                         ''Mouth'' cv4
             in (None, cv5))"


section \<open>The component and its surroundings\<close>

text \<open>
  The five fields of \<^verbatim>\<open>data()\<close> (\<^verbatim>\<open>ctx\<close> is kept inside \<open>canvas\<close>), and what the
  component acts on outside itself: the backend that \<^verbatim>\<open>tf.getBackend()\<close> reports, the
  number of callbacks that \<^verbatim>\<open>requestAnimationFrame\<close> has queued, and the calls made to
  TensorFlow.js, the detector, the camera and the scheduler, in order. The detector that
  \<^verbatim>\<open>this.model\<close> holds is known by the configuration it was created with. Output to the
  console is left out.
\<close>

record detector_config =
  runtime :: string
  refineLandmarks :: bool
  maxFaces :: nat

datatype call =
    SetBackend string
  | Ready
  | CreateDetector string detector_config
  | GetUserMedia nat nat
  | Play
  | EstimateFaces
  | RequestAnimationFrame

record video_el =
  srcObject :: bool
  onloadedmetadata :: bool
  playing :: bool

record app =
  model :: "detector_config option"
  video :: "video_el option"
  canvas :: "canvas_el option"
  error :: "string option"
  backend :: string
  pending :: nat
  calls :: "call list"

definition data :: "string \<Rightarrow> app" where
  "data b = \<lparr>model = None, video = None, canvas = None, error = None,
             backend = b, pending = 0, calls = []\<rparr>"

definition requestAnimationFrame :: "app \<Rightarrow> app" where
  "requestAnimationFrame a =
     a\<lparr>pending := pending a + 1, calls := calls a @ [RequestAnimationFrame]\<rparr>"


section \<open>One tick: detectFaces\<close>

text \<open>
  What \<^verbatim>\<open>await this.model.estimateFaces(this.video)\<close> does in a tick is given from
  outside: it rejects with an error or resolves with the array of results. The body of the
  \<^verbatim>\<open>try\<close> block:
  \<^verbatim>\<open>
  if (!this.model || tf.getBackend() !== 'webgl') {
    requestAnimationFrame(() => this.detectFaces());
    return;
  }
  const predictions = await this.model.estimateFaces(this.video);
  this.ctx.clearRect(0, 0, this.canvas.width, this.canvas.height);
  if (predictions.length > 0) { predictions.forEach((prediction) => { ... }); }
  requestAnimationFrame(() => this.detectFaces());
  \<close>
\<close>

type_synonym estimate = "js_error + prediction list"

definition detectFaces_try :: "estimate \<Rightarrow> app \<Rightarrow> js_error option \<times> app" where
  "detectFaces_try est a =
     (if model a = None \<or> backend a \<noteq> ''webgl'' then (None, requestAnimationFrame a)
      else
        let a1 = a\<lparr>calls := calls a @ [EstimateFaces]\<rparr>
        in case est of
             Inl e \<Rightarrow> (Some e, a1)
           | Inr predictions \<Rightarrow>
               (case canvas a1 of
                  None \<Rightarrow> (Some (TypeError_read ''null'' ''clearRect''), a1)
                | Some cv \<Rightarrow>
                    let (r, cv') =
                          then_do
                            (None, clearRect (Fin 0) (Fin 0) (number_of_nat (width cv))
                                     (number_of_nat (height cv)) cv)
                            (\<lambda>c. if length predictions > 0
                                 then forEach_try render_prediction predictions c
                                 else (None, c))
                    in then_do (r, a1\<lparr>canvas := Some cv'\<rparr>)
                         (\<lambda>a2. (None, requestAnimationFrame a2))))"

text \<open>
  \<^verbatim>\<open>
  catch (err) { this.error = `Detection failed: ${err.message}`; }
  \<close>
\<close>

definition detectFaces :: "estimate \<Rightarrow> app \<Rightarrow> app" where
  "detectFaces est a =
     (case detectFaces_try est a of
        (None, a') \<Rightarrow> a'
      | (Some err, a') \<Rightarrow> a'\<lparr>error := Some (''Detection failed: '' @ message err)\<rparr>)"


section \<open>Initialization: mounted\<close>

text \<open>
  The outcomes of the awaited calls are given from outside: \<^verbatim>\<open>tf.setBackend(name)\<close>
  rejects, or resolves and leaves some backend active (the name that
  \<^verbatim>\<open>tf.getBackend()\<close> reports afterwards); \<^verbatim>\<open>tf.ready()\<close>, \<^verbatim>\<open>createDetector\<close> and
  \<^verbatim>\<open>getUserMedia\<close> reject or resolve.
\<close>

record mount_env =
  env_setBackend :: "string \<Rightarrow> js_error + string"
  env_ready :: "js_error option"
  env_createDetector :: "js_error option"
  env_getUserMedia :: "js_error option"

definition await_setBackend :: "mount_env \<Rightarrow> string \<Rightarrow> app \<Rightarrow> js_error option \<times> app" where
  "await_setBackend env name a =
     (let a' = a\<lparr>calls := calls a @ [SetBackend name]\<rparr>
      in case env_setBackend env name of
           Inl e \<Rightarrow> (Some e, a')
         | Inr b \<Rightarrow> (None, a'\<lparr>backend := b\<rparr>))"

text \<open>\<^verbatim>\<open>throw new Error('Failed to set any TensorFlow.js backend.')\<close>\<close>

definition BackendUnavailable :: js_error where
  "BackendUnavailable = JsError ''Failed to set any TensorFlow.js backend.''"

definition face_mesh_config :: detector_config where
  "face_mesh_config = \<lparr>runtime = ''tfjs'', refineLandmarks = True, maxFaces = 1\<rparr>"

text \<open>A canvas element as the page creates it: 300 by 150, blank, default context state.\<close>

definition new_canvas :: canvas_el where
  "new_canvas = \<lparr>width = 300, height = 150, fillStyle = ''#000000'', font = ''10px sans-serif'',
                  path = [], surface = [], ctx_calls = []\<rparr>"

definition new_video :: video_el where
  "new_video = \<lparr>srcObject = False, onloadedmetadata = False, playing = False\<rparr>"

definition mounted_try :: "mount_env \<Rightarrow> app \<Rightarrow> js_error option \<times> app" where
  "mounted_try env a0 =
     then_do (await_setBackend env ''webgl'' a0) (\<lambda>a.
     then_do
       (if backend a = ''webgl'' then (None, a)
        else then_do (await_setBackend env ''cpu'' a) (\<lambda>a.
               if backend a \<noteq> ''cpu'' then (Some BackendUnavailable, a) else (None, a))) (\<lambda>a.
     then_do (env_ready env, a\<lparr>calls := calls a @ [Ready]\<rparr>) (\<lambda>a.
     then_do
       (case env_createDetector env of
          Some e \<Rightarrow> (Some e, a\<lparr>calls := calls a @ [CreateDetector ''MediaPipeFaceMesh'' face_mesh_config]\<rparr>)
        | None \<Rightarrow> (None, a\<lparr>model := Some face_mesh_config,
                           calls := calls a @ [CreateDetector ''MediaPipeFaceMesh'' face_mesh_config]\<rparr>))
       (\<lambda>a.
     then_do (None, a\<lparr>video := Some new_video, canvas := Some new_canvas\<rparr>) (\<lambda>a.
     then_do (env_getUserMedia env, a\<lparr>calls := calls a @ [GetUserMedia 640 480]\<rparr>) (\<lambda>a.
       (None, a\<lparr>video := map_option (\<lambda>v. v\<lparr>srcObject := True, onloadedmetadata := True\<rparr>)
                            (video a)\<rparr>)))))))"

text \<open>
  \<^verbatim>\<open>
  catch (err) { this.error = `Failed to initialize: ${err.message}`; }
  \<close>
\<close>

definition mounted :: "mount_env \<Rightarrow> app \<Rightarrow> app" where
  "mounted env a =
     (case mounted_try env a of
        (None, a') \<Rightarrow> a'
      | (Some err, a') \<Rightarrow> a'\<lparr>error := Some (''Failed to initialize: '' @ message err)\<rparr>)"


section \<open>Events\<close>

text \<open>
  After \<^verbatim>\<open>mounted\<close> the component runs only when the browser calls it back: the
  \<^verbatim>\<open>loadedmetadata\<close> event of the video (with the video's dimensions), if a handler is
  registered, and an animation frame, if a callback is queued. Assigning
  \<^verbatim>\<open>canvas.width\<close> or \<^verbatim>\<open>canvas.height\<close> blanks the bitmap and resets the context.
  \<^verbatim>\<open>
  this.video.onloadedmetadata = () => {
    this.video.play();
    this.canvas.width = this.video.videoWidth;
    this.canvas.height = this.video.videoHeight;
    this.detectFaces();
  };
  \<close>
\<close>

datatype event = LoadedMetadata nat nat estimate | AnimationFrame estimate

definition set_width :: "nat \<Rightarrow> canvas_el \<Rightarrow> canvas_el" where
  "set_width w cv = cv\<lparr>width := w, fillStyle := ''#000000'', font := ''10px sans-serif'',
                        path := [], surface := []\<rparr>"

definition set_height :: "nat \<Rightarrow> canvas_el \<Rightarrow> canvas_el" where
  "set_height h cv = cv\<lparr>height := h, fillStyle := ''#000000'', font := ''10px sans-serif'',
                         path := [], surface := []\<rparr>"

definition on_loadedmetadata :: "nat \<Rightarrow> nat \<Rightarrow> estimate \<Rightarrow> app \<Rightarrow> app" where
  "on_loadedmetadata vw vh est a =
     (case video a of
        None \<Rightarrow> a
      | Some v \<Rightarrow>
          if \<not> onloadedmetadata v then a
          else
            let a1 = a\<lparr>video := Some (v\<lparr>playing := True\<rparr>), calls := calls a @ [Play]\<rparr>
            in (case canvas a1 of
                  None \<Rightarrow> a1
                | Some cv \<Rightarrow>
                    detectFaces est (a1\<lparr>canvas := Some (set_height vh (set_width vw cv))\<rparr>)))"

definition animation_frame :: "estimate \<Rightarrow> app \<Rightarrow> app" where
  "animation_frame est a =
     (if pending a = 0 then a else detectFaces est (a\<lparr>pending := pending a - 1\<rparr>))"

fun step :: "event \<Rightarrow> app \<Rightarrow> app" where
  "step (LoadedMetadata vw vh est) a = on_loadedmetadata vw vh est a"
| "step (AnimationFrame est) a = animation_frame est a"

definition run :: "event list \<Rightarrow> app \<Rightarrow> app" where
  "run evs a = foldl (\<lambda>s ev. step ev s) a evs"


section \<open>Observations\<close>

text \<open>The \<^verbatim>\<open>fillText\<close> calls among the operations made on a context, in order.\<close>

definition text_calls :: "ctx_call list \<Rightarrow> ctx_call list" where
  "text_calls cs = filter (\<lambda>c. case c of FillText _ _ _ \<Rightarrow> True | _ \<Rightarrow> False) cs"

text \<open>
  Nothing can call the component back: no animation-frame callback is queued and the video
  has no \<^verbatim>\<open>loadedmetadata\<close> handler.
\<close>

definition idle :: "app \<Rightarrow> bool" where
  "idle a = (pending a = 0 \<and> (case video a of None \<Rightarrow> True | Some v \<Rightarrow> \<not> onloadedmetadata v))"

text \<open>The operations made so far on the context of the bound canvas.\<close>

definition drawing_calls :: "app \<Rightarrow> ctx_call list" where
  "drawing_calls a = (case canvas a of None \<Rightarrow> [] | Some cv \<Rightarrow> ctx_calls cv)"








section \<open>Example states and surroundings\<close>

text \<open>
  States and outcomes for the examples: the component as it runs once the WebGL backend is
  active, the model is loaded and the canvas has the size of a 640 by 480 video; the same
  on the CPU backend, with a marker left on the canvas; a result with one key point and no
  landmark groups; a result without \<^verbatim>\<open>annotations\<close>; and surroundings in which every
  awaited call of \<^verbatim>\<open>mounted\<close> resolves, with the backend named or with none.
\<close>

definition running_app :: app where
  "running_app =
     \<lparr>model = Some face_mesh_config,
      video = Some \<lparr>srcObject = True, onloadedmetadata = True, playing = True\<rparr>,
      canvas = Some (new_canvas\<lparr>width := 640, height := 480,
                       surface := [Circle (Fin 1) (Fin 2) (Fin 2) ''red'']\<rparr>),
      error = None, backend = ''webgl'', pending = 0, calls = []\<rparr>"

definition cpu_app :: app where
  "cpu_app = running_app\<lparr>backend := ''cpu''\<rparr>"

definition bare_face :: prediction where
  "bare_face = \<lparr>keypoints = [(Fin 3, Fin 4)], annotations = Some Map.empty\<rparr>"

definition broken_face :: prediction where
  "broken_face = \<lparr>keypoints = [], annotations = None\<rparr>"

definition env_resolving :: "(string \<Rightarrow> string) \<Rightarrow> mount_env" where
  "env_resolving active =
     \<lparr>env_setBackend = (\<lambda>name. Inr (active name)), env_ready = None,
      env_createDetector = None, env_getUserMedia = None\<rparr>"

text \<open>Surroundings in which everything resolves except the camera, which is denied.\<close>

definition env_camera_denied :: mount_env where
  "env_camera_denied = (env_resolving (\<lambda>name. name))\<lparr>env_getUserMedia := Some (JsError ''Permission denied'')\<rparr>"

text \<open>
  Surroundings in which no backend is registered, so that every \<^verbatim>\<open>tf.setBackend\<close>
  rejects; and surroundings in which \<open>webgl\<close> resolves without becoming active and
  \<open>cpu\<close> rejects.
\<close>

definition env_no_backend :: mount_env where
  "env_no_backend =
     \<lparr>env_setBackend = (\<lambda>name. Inl (JsError (''Backend name '' @ name @ '' not found in registry''))),
      env_ready = None, env_createDetector = None, env_getUserMedia = None\<rparr>"

definition env_cpu_rejected :: mount_env where
  "env_cpu_rejected =
     \<lparr>env_setBackend =
        (\<lambda>name. if name = ''cpu'' then Inl (JsError ''cpu backend not found'') else Inr ''''),
      env_ready = None, env_createDetector = None, env_getUserMedia = None\<rparr>"


section \<open>Rounding: what \<open>to_double\<close> returns\<close>

lemma round_half_even_of_int: "round_half_even (of_int m) = m"
  by (simp add: round_half_even_def)

lemma round_half_even_near:
  assumes "\<bar>r - of_int m\<bar> < 1 / 2"
  shows "round_half_even r = m"
proof (cases "of_int m \<le> r")
  case True
  then have f: "\<lfloor>r\<rfloor> = m" using assms by (intro floor_unique) linarith+
  show ?thesis using assms True by (simp add: round_half_even_def f Let_def)
next
  case False
  then have f: "\<lfloor>r\<rfloor> = m - 1" using assms by (intro floor_unique) (simp, linarith)+
  show ?thesis using assms False by (simp add: round_half_even_def f Let_def)
qed

lemma round_half_even_tie:
  assumes "r = of_int m + 1 / 2"
  shows "round_half_even r = (if even m then m else m + 1)"
proof -
  have f: "\<lfloor>r\<rfloor> = m" using assms by (intro floor_unique) simp_all
  have d: "r - of_int m = 1 / 2" using assms by simp
  show ?thesis unfolding round_half_even_def Let_def f d by simp
qed

lemma pow2_pos: "0 < pow2 k"
  by (simp add: pow2_def)

lemma floor_log2_eq:
  assumes "pow2 k \<le> q" "q < pow2 (k + 1)"
  shows "floor_log2 q = k"
proof (cases "1 \<le> q")
  case True
  have k0: "0 \<le> k"
  proof (rule ccontr)
    assume "\<not> 0 \<le> k"
    then have "pow2 (k + 1) \<le> 1" by (simp add: pow2_def)
    with assms True show False by linarith
  qed
  have lo: "2 ^ nat k \<le> \<lfloor>q\<rfloor>"
    using assms(1) k0 by (simp add: pow2_def le_floor_iff)
  have hi: "\<lfloor>q\<rfloor> < 2 ^ nat (k + 1)"
    using assms(2) k0 by (simp add: pow2_def floor_less_iff)
  have "bitlen \<lfloor>q\<rfloor> \<le> k + 1"
    using hi k0 by (simp add: bitlen_le_iff_power)
  moreover have "k + 1 \<le> bitlen \<lfloor>q\<rfloor>"
    using lo k0 by (simp add: bitlen_ge_iff_power nat_add_distrib)
  ultimately show ?thesis using True by (simp add: floor_log2_def)
next
  case False
  have q0: "0 < q" using assms(1) pow2_pos [of k] by linarith
  have k0: "k < 0"
  proof (rule ccontr)
    assume "\<not> k < 0"
    then have "1 \<le> pow2 k" by (simp add: pow2_def)
    with assms False show False by linarith
  qed
  define j where "j = nat (- k)"
  have j1: "1 \<le> j" and kj: "k = - int j" using k0 by (simp_all add: j_def)
  have p1: "pow2 k = 1 / 2 ^ j" using k0 by (simp add: pow2_def j_def)
  have p2: "pow2 (k + 1) = 1 / 2 ^ (j - 1)"
  proof (cases "k = - 1")
    case True
    then show ?thesis by (simp add: pow2_def j_def)
  next
    case False
    then have "k + 1 < 0" using k0 by simp
    moreover have "nat (- (k + 1)) = j - 1" by (simp add: j_def nat_diff_distrib)
    ultimately show ?thesis by (simp add: pow2_def)
  qed
  have up: "1 / q \<le> 2 ^ j"
    using assms(1) q0 unfolding p1 by (simp add: field_simps)
  have dn: "2 ^ (j - 1) < 1 / q"
    using assms(2) q0 unfolding p2 by (simp add: field_simps)
  have c_hi: "\<lceil>1 / q\<rceil> \<le> 2 ^ j"
    using up by (simp add: ceiling_le_iff)
  have c_lo: "2 ^ (j - 1) < \<lceil>1 / q\<rceil>"
    using dn by (simp add: less_ceiling_iff)
  have "bitlen (\<lceil>1 / q\<rceil> - 1) \<le> int j"
    using c_hi by (simp add: bitlen_le_iff_power)
  moreover have "int j \<le> bitlen (\<lceil>1 / q\<rceil> - 1)"
    using c_lo j1 by (simp add: bitlen_ge_iff_power)
  ultimately show ?thesis using False kj by (simp add: floor_log2_def)
qed

lemma to_double_eq:
  assumes "pow2 k \<le> \<bar>q\<bar>" "\<bar>q\<bar> < pow2 (k + 1)"
    and "e = max (k - 52) (- 1074)"
    and "round_half_even (q / pow2 e) = m"
    and "\<bar>of_int m * pow2 e\<bar> < 2 ^ 1024"
  shows "to_double q = Fin (of_int m * pow2 e)"
proof -
  have q0: "q \<noteq> 0" using assms(1) pow2_pos [of k] by auto
  have fl: "floor_log2 \<bar>q\<bar> = k" using assms(1,2) by (rule floor_log2_eq)
  have b1: "\<not> 2 ^ 1024 \<le> of_int m * pow2 e" and b2: "\<not> of_int m * pow2 e \<le> - (2 ^ 1024)"
    using assms(5) by linarith+
  show ?thesis
    unfolding to_double_def Let_def fl assms(3) [symmetric] assms(4)
    using q0 b1 b2 by simp
qed

lemma floor_log2_int_le:
  assumes "0 < i" "i < 2 ^ 53"
  shows "floor_log2 (of_int i) \<le> 52"
proof -
  have "bitlen i \<le> 53"
    using assms by (simp add: bitlen_le_iff_power)
  moreover have "(1::rat) \<le> of_int i" using assms by simp
  ultimately show ?thesis by (simp add: floor_log2_def)
qed

lemma to_double_of_int:
  assumes "\<bar>i\<bar> < 2 ^ 53"
  shows "to_double (of_int i) = Fin (of_int i)"
proof (cases "i = 0")
  case True
  then show ?thesis by (simp add: to_double_def)
next
  case False
  define e where "e = max (floor_log2 \<bar>of_int i\<bar> - 52) (- 1074)"
  have "floor_log2 \<bar>of_int i :: rat\<bar> \<le> 52"
    using floor_log2_int_le [of "\<bar>i\<bar>"] False assms by simp
  then have e0: "e \<le> 0" by (simp add: e_def)
  define k where "k = nat (- e)"
  have p: "pow2 e = 1 / 2 ^ k"
    using e0 by (cases "e = 0") (simp_all add: pow2_def k_def)
  have "(of_int i :: rat) / pow2 e = of_int (i * 2 ^ k)"
    by (simp add: p)
  then have r: "of_int (round_half_even (of_int i / pow2 e)) * pow2 e = (of_int i :: rat)"
    by (simp only: round_half_even_of_int) (simp add: p)
  have "\<bar>of_int i :: rat\<bar> < 2 ^ 53"
    using assms by (metis of_int_abs of_int_less_numeral_power_cancel_iff)
  also have "\<dots> < (2::rat) ^ 1024" by simp
  finally have b: "\<bar>of_int i :: rat\<bar> < 2 ^ 1024" .
  have b1: "\<not> (2::rat) ^ 1024 \<le> of_int i" and b2: "\<not> (of_int i :: rat) \<le> - (2 ^ 1024)"
    using b by linarith+
  have q0: "(of_int i :: rat) \<noteq> 0" using False by simp
  show ?thesis
    unfolding to_double_def Let_def e_def [symmetric] r
    using q0 b1 b2 by simp
qed

lemma to_double_numeral:
  "(numeral n :: int) < 2 ^ 53 \<Longrightarrow> to_double (numeral n) = Fin (numeral n)"
  using to_double_of_int [of "numeral n"] by simp

lemma to_double_neg_numeral:
  "(numeral n :: int) < 2 ^ 53 \<Longrightarrow> to_double (- numeral n) = Fin (- numeral n)"
  using to_double_of_int [of "- numeral n"] by simp

lemma to_double_0: "to_double 0 = Fin 0"
  by (simp add: to_double_def)

lemma to_double_1: "to_double 1 = Fin 1"
  using to_double_of_int [of 1] by simp


section \<open>Properties of the centroid\<close>

lemma foldl_sums:
  "foldl (\<lambda>(sumX, sumY) p. (num_add sumX (fst p), num_add sumY (snd p))) (a, b) ps
     = (foldl num_add a (map fst ps), foldl num_add b (map snd ps))"
  by (induction ps arbitrary: a b) simp_all

lemma getCenter_nonempty:
  "ps \<noteq> [] \<Longrightarrow>
     getCenter (Some ps) =
       (num_div (foldl num_add (Fin 0) (map fst ps)) (number_of_nat (length ps)),
        num_div (foldl num_add (Fin 0) (map snd ps)) (number_of_nat (length ps)))"
  by (simp add: getCenter_def foldl_sums)

lemma num_add_zero: "is_double v \<Longrightarrow> num_add (Fin 0) v = v"
  by (cases v) (simp_all add: is_double_def)

lemma num_div_one: "is_double v \<Longrightarrow> num_div v (Fin 1) = v"
  by (cases v) (simp_all add: is_double_def)

lemma getCenter_single:
  "is_double x \<Longrightarrow> is_double y \<Longrightarrow> getCenter (Some [(x, y)]) = (x, y)"
  by (simp add: getCenter_def num_add_zero num_div_one number_of_nat_def)

lemma foldl_add_replicate:
  "(int m + int k) * \<bar>i\<bar> < 2 ^ 53 \<Longrightarrow>
     foldl num_add (Fin (of_int (int m * i))) (replicate k (Fin (of_int i)))
       = Fin (of_int ((int m + int k) * i))"
proof (induction k arbitrary: m)
  case 0
  then show ?case by simp
next
  case (Suc k)
  have le: "(int (Suc m)) * \<bar>i\<bar> \<le> (int m + int (Suc k)) * \<bar>i\<bar>"
    by (intro mult_right_mono) simp_all
  have "int m * i + i = int (Suc m) * i" by (simp add: algebra_simps)
  then have "\<bar>int m * i + i\<bar> = int (Suc m) * \<bar>i\<bar>"
    by (simp only: abs_mult abs_of_nat)
  then have b: "\<bar>int m * i + i\<bar> < 2 ^ 53" using le Suc.prems by linarith
  have "num_add (Fin (of_int (int m * i))) (Fin (of_int i)) = to_double (of_int (int m * i + i))"
    by simp
  also have "\<dots> = Fin (of_int (int (Suc m) * i))"
    using to_double_of_int [OF b] by (simp add: algebra_simps)
  finally have s: "num_add (Fin (of_int (int m * i))) (Fin (of_int i)) = Fin (of_int (int (Suc m) * i))" .
  have "(int (Suc m) + int k) * \<bar>i\<bar> < 2 ^ 53" using Suc.prems by (simp add: algebra_simps)
  from Suc.IH [OF this]
  have ih: "foldl num_add (Fin (of_int (int (Suc m) * i))) (replicate k (Fin (of_int i)))
              = Fin (of_int ((int (Suc m) + int k) * i))" .
  have e: "int (Suc m) + int k = int m + int (Suc k)" by simp
  show ?case
    by (simp only: replicate_Suc foldl_Cons s ih e)
qed

lemma mean_replicate:
  assumes "0 < n" "int n * \<bar>i\<bar> < 2 ^ 53"
  shows "num_div (foldl num_add (Fin 0) (replicate n (Fin (of_int i)))) (number_of_nat n) = Fin (of_int i)"
proof -
  have "foldl num_add (Fin 0) (replicate n (Fin (of_int i))) = Fin (of_int (int n * i))"
    using foldl_add_replicate [of 0 n i] assms by simp
  moreover have "(of_int (int n * i) :: rat) / of_nat n = of_int i"
    using assms(1) by simp
  moreover have "\<bar>i\<bar> \<le> int n * \<bar>i\<bar>"
    using assms(1) by (simp add: mult_le_cancel_right1)
  then have "to_double (of_int i) = Fin (of_int i)"
    using assms(2) by (intro to_double_of_int) linarith
  ultimately show ?thesis using assms(1) by (simp add: number_of_nat_def)
qed

lemma getCenter_replicate_int:
  assumes "0 < n" "int n * \<bar>i\<bar> < 2 ^ 53" "int n * \<bar>j\<bar> < 2 ^ 53"
  shows "getCenter (Some (replicate n (Fin (of_int i), Fin (of_int j)))) = (Fin (of_int i), Fin (of_int j))"
  using assms by (simp add: getCenter_nonempty mean_replicate)

lemma getCenter_square:
  "getCenter (Some [(Fin 0, Fin 0), (Fin 10, Fin 0), (Fin 0, Fin 10), (Fin 10, Fin 10)]) = (Fin 5, Fin 5)"
  by (simp add: getCenter_def number_of_nat_def to_double_0 to_double_numeral)

text \<open>
  The binary64 value of the literal \<^verbatim>\<open>0.1\<close> is \<open>3602879701896397 / 2^55\<close>. Adding it
  three times to 0 and dividing by 3, each step rounded, ends one unit in the last place
  above it.
\<close>

lemma tenth_is_double:
  "to_double (3602879701896397 / 36028797018963968) = Fin (3602879701896397 / 36028797018963968)"
  using to_double_eq [of "- 4" "3602879701896397 / 36028797018963968" "- 56" 7205759403792794]
    round_half_even_near [of "3602879701896397 / 36028797018963968 / pow2 (- 56)" 7205759403792794]
  by (simp add: pow2_def)

lemma two_tenths:
  "to_double (3602879701896397 / 18014398509481984) = Fin (3602879701896397 / 18014398509481984)"
  using to_double_eq [of "- 3" "3602879701896397 / 18014398509481984" "- 55" 7205759403792794]
    round_half_even_near [of "3602879701896397 / 18014398509481984 / pow2 (- 55)" 7205759403792794]
  by (simp add: pow2_def)

lemma three_tenths:
  "to_double (10808639105689191 / 36028797018963968) = Fin (1351079888211149 / 4503599627370496)"
  using to_double_eq [of "- 2" "10808639105689191 / 36028797018963968" "- 54" 5404319552844596]
    round_half_even_tie [of "10808639105689191 / 36028797018963968 / pow2 (- 54)" 5404319552844595]
  by (simp add: pow2_def)

lemma third_of_three_tenths:
  "to_double (1351079888211149 / 13510798882111488) = Fin (7205759403792795 / 72057594037927936)"
  using to_double_eq [of "- 4" "1351079888211149 / 13510798882111488" "- 56" 7205759403792795]
    round_half_even_near [of "1351079888211149 / 13510798882111488 / pow2 (- 56)" 7205759403792795]
  by (simp add: pow2_def)

lemma getCenter_tenths:
  "getCenter (Some [(Fin (3602879701896397 / 36028797018963968), Fin (3602879701896397 / 36028797018963968)),
                    (Fin (3602879701896397 / 36028797018963968), Fin (3602879701896397 / 36028797018963968)),
                    (Fin (3602879701896397 / 36028797018963968), Fin (3602879701896397 / 36028797018963968))])
     = (Fin (7205759403792795 / 72057594037927936), Fin (7205759403792795 / 72057594037927936))"
  by (simp add: getCenter_def number_of_nat_def tenth_is_double two_tenths three_tenths third_of_three_tenths)

text \<open>
  Claim C1, as the code has it. \<^verbatim>\<open>getCenter\<close> returns \<open>(0, 0)\<close> for a missing group and
  for an empty one; for a group of one point it returns that point; for the group
  \<open>{(0,0), (10,0), (0,10), (10,10)}\<close> it returns \<open>(5, 5)\<close>; for every non-empty group it
  returns the sum of the x coordinates divided by the number of points, and the same for
  y, where the sum is accumulated from 0 in the order of the points and every addition and
  the division are the rounded operations of JavaScript Numbers. For \<open>n\<close> identical points
  it returns that point when the coordinates are integers \<open>i\<close> with \<open>n * |i| < 2^53\<close>
  (then no step rounds).
\<close>

theorem getCenter_mean:
  "getCenter None = (Fin 0, Fin 0)
   \<and> getCenter (Some []) = (Fin 0, Fin 0)
   \<and> (is_double x \<and> is_double y \<longrightarrow> getCenter (Some [(x, y)]) = (x, y))
   \<and> (0 < n \<and> int n * \<bar>i\<bar> < 2 ^ 53 \<and> int n * \<bar>j\<bar> < 2 ^ 53 \<longrightarrow>
        getCenter (Some (replicate n (Fin (of_int i), Fin (of_int j))))
          = (Fin (of_int i), Fin (of_int j)))
   \<and> getCenter (Some [(Fin 0, Fin 0), (Fin 10, Fin 0), (Fin 0, Fin 10), (Fin 10, Fin 10)])
        = (Fin 5, Fin 5)
   \<and> (ps \<noteq> [] \<longrightarrow>
        getCenter (Some ps) =
          (num_div (foldl num_add (Fin 0) (map fst ps)) (number_of_nat (length ps)),
           num_div (foldl num_add (Fin 0) (map snd ps)) (number_of_nat (length ps))))"
proof -
  have "getCenter None = (Fin 0, Fin 0)" and "getCenter (Some []) = (Fin 0, Fin 0)"
    by (simp_all add: getCenter_def)
  then show ?thesis
    using getCenter_single [of x y] getCenter_replicate_int [of n i j] getCenter_square
      getCenter_nonempty [of ps]
    by blast
qed

theorem getCenter_mean_witness:
  "is_double (Fin 3) \<and> is_double (Fin 4) \<and> getCenter (Some [(Fin 3, Fin 4)]) = (Fin 3, Fin 4)
   \<and> (0::nat) < 3 \<and> int 3 * \<bar>7\<bar> < 2 ^ 53 \<and> int 3 * \<bar>- 2\<bar> < 2 ^ 53
   \<and> getCenter (Some [(Fin 7, Fin (- 2)), (Fin 7, Fin (- 2)), (Fin 7, Fin (- 2))])
        = (Fin 7, Fin (- 2))
   \<and> [(Fin 1, Fin 2), (Fin 3, Fin 6)] \<noteq> []
   \<and> getCenter (Some [(Fin 1, Fin 2), (Fin 3, Fin 6)]) = (Fin 2, Fin 4)"
proof -
  have d: "is_double (Fin 3)" "is_double (Fin 4)"
    by (simp_all add: is_double_def to_double_numeral)
  have r: "replicate 3 (Fin 7, Fin (- 2)) = [(Fin 7, Fin (- 2)), (Fin 7, Fin (- 2)), (Fin 7, Fin (- 2))]"
    by (simp add: numeral_3_eq_3)
  show ?thesis
    using d r
      getCenter_mean [where x = "Fin 3" and y = "Fin 4" and n = 3 and i = 7 and j = "- 2"
        and ps = "[(Fin 1, Fin 2), (Fin 3, Fin 6)]"]
    by (simp add: number_of_nat_def to_double_0 to_double_1 to_double_numeral)
qed

text \<open>
  Claim C1 as stated fails for identical points: three copies of the point
  \<open>(0.1, 0.1)\<close> have the centroid \<open>(0.10000000000000002, 0.10000000000000002)\<close>.
\<close>

theorem getCenter_identical_counterexample:
  "is_double (Fin (3602879701896397 / 36028797018963968))
   \<and> getCenter (Some
        [(Fin (3602879701896397 / 36028797018963968), Fin (3602879701896397 / 36028797018963968)),
         (Fin (3602879701896397 / 36028797018963968), Fin (3602879701896397 / 36028797018963968)),
         (Fin (3602879701896397 / 36028797018963968), Fin (3602879701896397 / 36028797018963968))])
       \<noteq> (Fin (3602879701896397 / 36028797018963968), Fin (3602879701896397 / 36028797018963968))"
  by (simp add: is_double_def tenth_is_double getCenter_tenths)


section \<open>A tick, step by step\<close>

lemma detectFaces_skip:
  "model a = None \<or> backend a \<noteq> ''webgl'' \<Longrightarrow> detectFaces est a = requestAnimationFrame a"
  by (simp add: detectFaces_def detectFaces_try_def)

lemma detectFaces_try_throws:
  assumes "detectFaces_try est a = (Some err, a')"
  shows "pending a' = pending a" and "calls a' = calls a @ [EstimateFaces]"
    and "model a \<noteq> None" and "backend a = ''webgl''"
  using assms
  by (auto simp: detectFaces_try_def then_do_def Let_def
      split: if_splits sum.splits option.splits prod.splits)

lemma run_frames_idle:
  "pending s = 0 \<Longrightarrow> run (map AnimationFrame ests) s = s"
  by (induction ests) (simp_all add: run_def animation_frame_def)

lemma detectFaces_inference_error:
  "model a \<noteq> None \<Longrightarrow> backend a = ''webgl'' \<Longrightarrow>
     detectFaces_try (Inl e) a = (Some e, a\<lparr>calls := calls a @ [EstimateFaces]\<rparr>)"
  by (simp add: detectFaces_try_def)

lemma clearRect_whole:
  "clearRect (Fin 0) (Fin 0) (number_of_nat (width cv)) (number_of_nat (height cv)) cv
     = cv\<lparr>surface := [],
          ctx_calls := ctx_calls cv @
            [ClearRect (Fin 0) (Fin 0) (number_of_nat (width cv)) (number_of_nat (height cv))]\<rparr>"
  by (simp add: clearRect_def number_of_nat_def)

lemma clearRect_forgets:
  "clearRect (Fin 0) (Fin 0) (number_of_nat (width (cv\<lparr>surface := old\<rparr>)))
       (number_of_nat (height (cv\<lparr>surface := old\<rparr>))) (cv\<lparr>surface := old\<rparr>)
     = clearRect (Fin 0) (Fin 0) (number_of_nat (width cv)) (number_of_nat (height cv)) cv"
  by (simp add: clearRect_def number_of_nat_def)

lemma ctx_calls_draw_keypoint:
  "ctx_calls (draw_keypoint p cv)
     = ctx_calls cv @ [BeginPath, Arc (fst p) (snd p) (Fin 2), SetFillStyle ''red'', Fill]"
  by (simp add: draw_keypoint_def fill_def set_fillStyle_def arc_def beginPath_def Let_def)

lemma ctx_calls_draw_keypoints:
  "ctx_calls (foldl (\<lambda>c point. draw_keypoint point c) cv kps)
     = ctx_calls cv @
       concat (map (\<lambda>p. [BeginPath, Arc (fst p) (snd p) (Fin 2), SetFillStyle ''red'', Fill]) kps)"
  by (induction kps arbitrary: cv) (simp_all add: ctx_calls_draw_keypoint)

lemma text_calls_append: "text_calls (xs @ ys) = text_calls xs @ text_calls ys"
  by (simp add: text_calls_def)

lemma text_calls_keypoints:
  "text_calls (concat (map (\<lambda>p. [BeginPath, Arc (fst p) (snd p) (Fin 2), SetFillStyle ''red'', Fill]) kps)) = []"
  by (induction kps) (simp_all add: text_calls_def)

lemma ctx_calls_drawLabel:
  "ctx_calls (drawLabel x y label cv)
     = ctx_calls cv @ [SetFont ''14px Arial'', SetFillStyle ''blue'', FillText label x y]"
  by (simp add: drawLabel_def fillText_def set_fillStyle_def set_font_def Let_def)

lemma text_calls_drawLabel:
  "text_calls (ctx_calls (drawLabel x y label cv)) = text_calls (ctx_calls cv) @ [FillText label x y]"
  by (simp add: ctx_calls_drawLabel text_calls_def)

lemma render_prediction_ok:
  "annotations pr = Some ann \<Longrightarrow> fst (render_prediction pr cv) = None"
  by (simp add: render_prediction_def Let_def)

lemma text_calls_render_prediction:
  assumes "annotations pr = Some ann"
  shows "text_calls (ctx_calls (snd (render_prediction pr cv)))
     = text_calls (ctx_calls cv) @
       [FillText ''Left Eye'' (fst (getCenter (ann ''leftEyeUpper0'')))
          (num_sub (snd (getCenter (ann ''leftEyeUpper0''))) (Fin 20)),
        FillText ''Right Eye'' (fst (getCenter (ann ''rightEyeUpper0'')))
          (num_sub (snd (getCenter (ann ''rightEyeUpper0''))) (Fin 20)),
        FillText ''Nose'' (fst (getCenter (ann ''noseBottom'')))
          (num_add (snd (getCenter (ann ''noseBottom''))) (Fin 10)),
        FillText ''Mouth'' (fst (getCenter (ann ''lipsUpperOuter'')))
          (num_add (snd (getCenter (ann ''lipsUpperOuter''))) (Fin 20))]"
  using assms
  by (simp add: render_prediction_def Let_def text_calls_drawLabel ctx_calls_draw_keypoints
      text_calls_append text_calls_keypoints)

lemma ctx_calls_render_prediction:
  "\<exists>ext. ctx_calls (snd (render_prediction pr cv)) = ctx_calls cv @ ext"
  by (cases "annotations pr")
     (simp_all add: render_prediction_def Let_def ctx_calls_drawLabel ctx_calls_draw_keypoints)

lemma ctx_calls_forEach:
  "\<exists>ext. ctx_calls (snd (forEach_try render_prediction prs cv)) = ctx_calls cv @ ext"
proof (induction prs arbitrary: cv)
  case Nil
  then show ?case by simp
next
  case (Cons pr prs)
  obtain r cv1 where rp: "render_prediction pr cv = (r, cv1)" by (cases "render_prediction pr cv")
  obtain e1 where e1: "ctx_calls cv1 = ctx_calls cv @ e1"
    using ctx_calls_render_prediction [of pr cv] rp by auto
  show ?case
  proof (cases r)
    case None
    obtain e2 where "ctx_calls (snd (forEach_try render_prediction prs cv1)) = ctx_calls cv1 @ e2"
      using Cons.IH [of cv1] by auto
    then show ?thesis using rp None e1 by (simp add: then_do_def)
  next
    case (Some e)
    then show ?thesis using rp e1 by (simp add: then_do_def)
  qed
qed

lemma detectFaces_try_render:
  assumes "model a \<noteq> None" "backend a = ''webgl''" "canvas a = Some cv"
  shows "detectFaces_try (Inr prs) a
     = (case forEach_try render_prediction prs
               (clearRect (Fin 0) (Fin 0) (number_of_nat (width cv)) (number_of_nat (height cv)) cv) of
          (None, cv') \<Rightarrow>
            (None, requestAnimationFrame (a\<lparr>calls := calls a @ [EstimateFaces], canvas := Some cv'\<rparr>))
        | (Some e, cv') \<Rightarrow> (Some e, a\<lparr>calls := calls a @ [EstimateFaces], canvas := Some cv'\<rparr>))"
proof -
  obtain m where m: "model a = Some m" using assms(1) by auto
  show ?thesis
    using m assms(2,3)
    by (cases prs)
       (simp_all add: detectFaces_try_def then_do_def Let_def split: prod.splits option.splits)
qed

lemma detectFaces_canvas:
  assumes "model a \<noteq> None" "backend a = ''webgl''" "canvas a = Some cv"
  shows "canvas (detectFaces (Inr prs) a)
     = Some (snd (forEach_try render_prediction prs
         (clearRect (Fin 0) (Fin 0) (number_of_nat (width cv)) (number_of_nat (height cv)) cv)))"
  by (simp add: detectFaces_def detectFaces_try_render [OF assms] requestAnimationFrame_def
      split: prod.splits option.splits)












section \<open>Initialization and events, step by step\<close>

lemma step_idle: "idle a \<Longrightarrow> step ev a = a"
  by (cases ev) (auto simp: idle_def on_loadedmetadata_def animation_frame_def split: option.splits)

lemma run_idle: "idle a \<Longrightarrow> run evs a = a"
  by (induction evs) (simp_all add: run_def step_idle)

lemma mounted_try_throws:
  assumes "mounted_try env (data b) = (Some err, a')"
  shows "idle a'" and "EstimateFaces \<notin> set (calls a')"
    and "canvas a' = None \<or> canvas a' = Some new_canvas"
  using assms
  by (auto simp: mounted_try_def then_do_def await_setBackend_def data_def idle_def new_video_def
      Let_def split: if_splits sum.splits option.splits prod.splits)

lemma mounted_first_call:
  "take 1 (calls (mounted env (data b))) = [SetBackend ''webgl'']"
  by (auto simp: mounted_def mounted_try_def then_do_def await_setBackend_def data_def
      Let_def split: if_splits sum.splits option.splits prod.splits)

lemma mounted_second_call:
  "env_setBackend env ''webgl'' = Inr b1 \<Longrightarrow> b1 \<noteq> ''webgl'' \<Longrightarrow>
     take 2 (calls (mounted env (data b))) = [SetBackend ''webgl'', SetBackend ''cpu'']"
  by (auto simp: mounted_def mounted_try_def then_do_def await_setBackend_def data_def
      Let_def split: if_splits sum.splits option.splits prod.splits)

lemma mounted_no_fallback:
  "env_setBackend env ''webgl'' = Inr ''webgl'' \<Longrightarrow>
     SetBackend ''cpu'' \<notin> set (calls (mounted env (data b)))"
  by (auto simp: mounted_def mounted_try_def then_do_def await_setBackend_def data_def
      Let_def split: if_splits sum.splits option.splits prod.splits)

lemma mounted_try_no_backend:
  "env_setBackend env ''webgl'' = Inr b1 \<Longrightarrow> b1 \<noteq> ''webgl'' \<Longrightarrow>
   env_setBackend env ''cpu'' = Inr b2 \<Longrightarrow> b2 \<noteq> ''cpu'' \<Longrightarrow>
     mounted_try env (data b)
       = (Some BackendUnavailable,
          (data b)\<lparr>backend := b2, calls := [SetBackend ''webgl'', SetBackend ''cpu'']\<rparr>)"
  by (simp add: mounted_try_def then_do_def await_setBackend_def data_def)


lemma mounted_try_webgl_rejects:
  "env_setBackend env ''webgl'' = Inl e \<Longrightarrow>
     mounted_try env (data b) = (Some e, (data b)\<lparr>calls := [SetBackend ''webgl'']\<rparr>)"
  by (simp add: mounted_try_def then_do_def await_setBackend_def data_def)

lemma mounted_try_cpu_rejects:
  "env_setBackend env ''webgl'' = Inr b1 \<Longrightarrow> b1 \<noteq> ''webgl'' \<Longrightarrow>
   env_setBackend env ''cpu'' = Inl e \<Longrightarrow>
     mounted_try env (data b)
       = (Some e, (data b)\<lparr>backend := b1, calls := [SetBackend ''webgl'', SetBackend ''cpu'']\<rparr>)"
  by (simp add: mounted_try_def then_do_def await_setBackend_def data_def)

lemma mounted_rejected:
  assumes "mounted_try env (data b) = (Some e, (data b)\<lparr>backend := b', calls := cs\<rparr>)"
  shows "fst (mounted_try env (data b)) = Some e
         \<and> error (mounted env (data b)) = Some (''Failed to initialize: '' @ message e)
         \<and> calls (mounted env (data b)) = cs
         \<and> backend (mounted env (data b)) = b'
         \<and> model (mounted env (data b)) = None
         \<and> run evs (mounted env (data b)) = mounted env (data b)"
proof -
  have "idle (mounted env (data b))"
    using assms by (simp add: mounted_def idle_def data_def)
  then have "run evs (mounted env (data b)) = mounted env (data b)" by (rule run_idle)
  then show ?thesis using assms by (simp add: mounted_def data_def)
qed


section \<open>The gate of a tick\<close>

lemma skip_frames_keep:
  "model a = None \<or> backend a \<noteq> ''webgl'' \<Longrightarrow>
     canvas (run (map AnimationFrame ests) a) = canvas a"
proof (induction ests arbitrary: a)
  case Nil
  then show ?case by (simp add: run_def)
next
  case (Cons est ests)
  let ?a' = "animation_frame est a"
  have s: "model ?a' = model a \<and> backend ?a' = backend a \<and> canvas ?a' = canvas a"
    using Cons.prems
    by (auto simp: animation_frame_def detectFaces_skip requestAnimationFrame_def)
  then have "model ?a' = None \<or> backend ?a' \<noteq> ''webgl''" using Cons.prems by simp
  from Cons.IH [OF this] have "canvas (run (map AnimationFrame ests) ?a') = canvas a"
    using s by simp
  then show ?case by (simp add: run_def)
qed

text \<open>
  Claim C3. In a tick that finds a backend other than \<open>webgl\<close> active, the only call made
  is \<^verbatim>\<open>requestAnimationFrame\<close>: \<^verbatim>\<open>estimateFaces\<close> is not called, the canvas and its
  context are untouched, no error is set, and one more tick is queued.
\<close>

theorem detectFaces_backend_gate:
  "backend a \<noteq> ''webgl'' \<Longrightarrow>
     calls (detectFaces est a) = calls a @ [RequestAnimationFrame]
     \<and> canvas (detectFaces est a) = canvas a
     \<and> pending (detectFaces est a) = pending a + 1
     \<and> error (detectFaces est a) = error a"
  by (simp add: detectFaces_skip requestAnimationFrame_def)

text \<open>An instance: the CPU backend, with a result that inference would have returned.\<close>

theorem detectFaces_backend_gate_witness:
  "backend cpu_app \<noteq> ''webgl''
   \<and> calls (detectFaces (Inr [bare_face]) cpu_app) = [RequestAnimationFrame]
   \<and> canvas (detectFaces (Inr [bare_face]) cpu_app) = canvas cpu_app
   \<and> pending (detectFaces (Inr [bare_face]) cpu_app) = 1
   \<and> error (detectFaces (Inr [bare_face]) cpu_app) = None"
  using detectFaces_backend_gate [of cpu_app "Inr [bare_face]"]
  by (simp add: cpu_app_def running_app_def)

text \<open>
  Claim C9. In a tick that finds \<^verbatim>\<open>this.model\<close> null, whatever the backend, the only
  call made is \<^verbatim>\<open>requestAnimationFrame\<close>: \<^verbatim>\<open>estimateFaces\<close> is not called, the canvas
  is untouched, and one more tick is queued.
\<close>

theorem detectFaces_model_gate:
  "model a = None \<Longrightarrow>
     calls (detectFaces est a) = calls a @ [RequestAnimationFrame]
     \<and> EstimateFaces \<notin> set (drop (length (calls a)) (calls (detectFaces est a)))
     \<and> canvas (detectFaces est a) = canvas a
     \<and> pending (detectFaces est a) = pending a + 1
     \<and> error (detectFaces est a) = error a"
  by (simp add: detectFaces_skip requestAnimationFrame_def)

text \<open>An instance: the state before \<^verbatim>\<open>mounted\<close> has loaded the model.\<close>

theorem detectFaces_model_gate_witness:
  "model (data ''webgl'') = None
   \<and> calls (detectFaces (Inr [bare_face]) (data ''webgl'')) = [RequestAnimationFrame]
   \<and> EstimateFaces \<notin> set (calls (detectFaces (Inr [bare_face]) (data ''webgl'')))
   \<and> canvas (detectFaces (Inr [bare_face]) (data ''webgl'')) = None
   \<and> pending (detectFaces (Inr [bare_face]) (data ''webgl'')) = 1
   \<and> error (detectFaces (Inr [bare_face]) (data ''webgl'')) = None"
  using detectFaces_model_gate [of "data ''webgl''" "Inr [bare_face]"]
  by (simp add: data_def)

text \<open>
  Claim C10. A tick on the skip branch (model not loaded, or backend not \<open>webgl\<close>) leaves
  the canvas exactly as it was, not cleared; and so does every sequence of animation
  frames that starts in such a state, so what an earlier tick drew stays on the surface.
\<close>

theorem skipped_tick_keeps_surface:
  "model a = None \<or> backend a \<noteq> ''webgl'' \<Longrightarrow>
     canvas (detectFaces est a) = canvas a
     \<and> canvas (run (map AnimationFrame ests) a) = canvas a"
  using skip_frames_keep [of a ests]
  by (simp add: detectFaces_skip requestAnimationFrame_def)

text \<open>An instance: on the CPU backend the red marker stays through three skipped ticks.\<close>

theorem skipped_tick_keeps_surface_witness:
  "backend cpu_app \<noteq> ''webgl''
   \<and> map_option surface (canvas (detectFaces (Inr []) cpu_app))
       = Some [Circle (Fin 1) (Fin 2) (Fin 2) ''red'']
   \<and> map_option surface
         (canvas (run [AnimationFrame (Inr []), AnimationFrame (Inr [bare_face])]
                   (detectFaces (Inr []) cpu_app)))
       = Some [Circle (Fin 1) (Fin 2) (Fin 2) ''red'']"
  using skipped_tick_keeps_surface [of cpu_app "Inr []" "[]"]
    skipped_tick_keeps_surface [of "detectFaces (Inr []) cpu_app" "Inr []" "[Inr [], Inr [bare_face]]"]
  by (simp add: cpu_app_def running_app_def new_canvas_def detectFaces_skip requestAnimationFrame_def)


section \<open>An error in a tick\<close>

text \<open>
  Claim C2. When the body of a tick throws an error, from the inference call or while
  rendering, \<^verbatim>\<open>this.error\<close> becomes \<open>Detection failed: \<close> followed by the error's
  message, the tick has called \<^verbatim>\<open>estimateFaces\<close> and nothing else, in particular not
  \<^verbatim>\<open>requestAnimationFrame\<close>, and the queue of callbacks is as the tick found it; when the
  tick ran with the queue empty, every later sequence of animation frames leaves the
  state unchanged.
\<close>

theorem detectFaces_error_fatal:
  assumes "detectFaces_try est a = (Some err, a')"
  shows "error (detectFaces est a) = Some (''Detection failed: '' @ message err)
         \<and> pending (detectFaces est a) = pending a
         \<and> calls (detectFaces est a) = calls a @ [EstimateFaces]
         \<and> (pending a = 0 \<longrightarrow> run (map AnimationFrame ests) (detectFaces est a) = detectFaces est a)"
proof -
  have d: "detectFaces est a = a'\<lparr>error := Some (''Detection failed: '' @ message err)\<rparr>"
    using assms by (simp add: detectFaces_def)
  have p: "pending (detectFaces est a) = pending a"
    using detectFaces_try_throws(1) [OF assms] by (simp add: d)
  have c: "calls (detectFaces est a) = calls a @ [EstimateFaces]"
    using detectFaces_try_throws(2) [OF assms] by (simp add: d)
  have "pending a = 0 \<Longrightarrow> run (map AnimationFrame ests) (detectFaces est a) = detectFaces est a"
    using p by (intro run_frames_idle) simp
  then show ?thesis using p c by (simp add: d)
qed

lemma running_inference_error:
  "detectFaces_try (Inl (JsError ''model crashed'')) running_app
     = (Some (JsError ''model crashed''), running_app\<lparr>calls := [EstimateFaces]\<rparr>)"
  using detectFaces_inference_error [of running_app "JsError ''model crashed''"]
  by (simp add: running_app_def)

lemma running_render_error:
  "fst (detectFaces_try (Inr [broken_face]) running_app)
     = Some (TypeError_read ''undefined'' ''leftEyeUpper0'')"
  by (simp add: detectFaces_try_def running_app_def broken_face_def render_prediction_def
      then_do_def clearRect_def number_of_nat_def new_canvas_def)

text \<open>Two instances: a rejected inference call, and a result that cannot be rendered.\<close>

theorem detectFaces_error_fatal_witness:
  "detectFaces_try (Inl (JsError ''model crashed'')) running_app
     = (Some (JsError ''model crashed''), running_app\<lparr>calls := [EstimateFaces]\<rparr>)
   \<and> error (detectFaces (Inl (JsError ''model crashed'')) running_app)
       = Some ''Detection failed: model crashed''
   \<and> pending (detectFaces (Inl (JsError ''model crashed'')) running_app) = 0
   \<and> calls (detectFaces (Inl (JsError ''model crashed'')) running_app) = [EstimateFaces]
   \<and> pending running_app = 0
   \<and> run (map AnimationFrame [Inr [bare_face], Inr []])
         (detectFaces (Inl (JsError ''model crashed'')) running_app)
       = detectFaces (Inl (JsError ''model crashed'')) running_app
   \<and> fst (detectFaces_try (Inr [broken_face]) running_app)
       = Some (TypeError_read ''undefined'' ''leftEyeUpper0'')
   \<and> error (detectFaces (Inr [broken_face]) running_app)
       = Some (''Detection failed: '' @ message (TypeError_read ''undefined'' ''leftEyeUpper0''))
   \<and> RequestAnimationFrame \<notin> set (calls (detectFaces (Inr [broken_face]) running_app))"
proof -
  obtain a2 where r: "detectFaces_try (Inr [broken_face]) running_app
      = (Some (TypeError_read ''undefined'' ''leftEyeUpper0''), a2)"
    using running_render_error by (cases "detectFaces_try (Inr [broken_face]) running_app") simp
  have p: "pending running_app = 0" and c: "calls running_app = []"
    by (simp_all add: running_app_def)
  show ?thesis
    using detectFaces_error_fatal [OF running_inference_error, of "[Inr [bare_face], Inr []]"]
      detectFaces_error_fatal [OF r, of "[]"] running_inference_error running_render_error p c
    by simp
qed


section \<open>Clearing and labels\<close>

text \<open>
  Claim C4. In a tick that gets results from the inference call (model loaded, backend
  \<open>webgl\<close>, canvas bound), the first operation on the context is
  \<^verbatim>\<open>clearRect(0, 0, width, height)\<close>, before anything is drawn; with no results the
  surface ends blank; and whatever the surface showed before the tick, the canvas ends the
  same, so nothing of an earlier tick remains.
\<close>

theorem detectFaces_clears_first:
  assumes "model a \<noteq> None" "backend a = ''webgl''" "canvas a = Some cv"
  shows "\<exists>cv'. canvas (detectFaces (Inr prs) a) = Some cv'
           \<and> take (Suc (length (ctx_calls cv))) (ctx_calls cv')
               = ctx_calls cv @
                 [ClearRect (Fin 0) (Fin 0) (number_of_nat (width cv)) (number_of_nat (height cv))]
           \<and> (prs = [] \<longrightarrow> surface cv' = [])
           \<and> canvas (detectFaces (Inr prs) (a\<lparr>canvas := Some (cv\<lparr>surface := old\<rparr>)\<rparr>)) = Some cv'"
proof -
  let ?c0 = "clearRect (Fin 0) (Fin 0) (number_of_nat (width cv)) (number_of_nat (height cv)) cv"
  let ?cv' = "snd (forEach_try render_prediction prs ?c0)"
  have 1: "canvas (detectFaces (Inr prs) a) = Some ?cv'"
    using assms by (rule detectFaces_canvas)
  obtain ext where "ctx_calls ?cv' = ctx_calls ?c0 @ ext"
    using ctx_calls_forEach [of prs ?c0] by auto
  then have 2: "take (Suc (length (ctx_calls cv))) (ctx_calls ?cv')
      = ctx_calls cv @
        [ClearRect (Fin 0) (Fin 0) (number_of_nat (width cv)) (number_of_nat (height cv))]"
    by (simp add: clearRect_whole)
  have 3: "prs = [] \<longrightarrow> surface ?cv' = []"
    by (simp add: clearRect_whole)
  have "canvas (detectFaces (Inr prs) (a\<lparr>canvas := Some (cv\<lparr>surface := old\<rparr>)\<rparr>))
      = Some (snd (forEach_try render_prediction prs
          (clearRect (Fin 0) (Fin 0) (number_of_nat (width (cv\<lparr>surface := old\<rparr>)))
             (number_of_nat (height (cv\<lparr>surface := old\<rparr>))) (cv\<lparr>surface := old\<rparr>))))"
    using assms by (intro detectFaces_canvas) simp_all
  then have 4: "canvas (detectFaces (Inr prs) (a\<lparr>canvas := Some (cv\<lparr>surface := old\<rparr>)\<rparr>)) = Some ?cv'"
    by (simp only: clearRect_forgets)
  show ?thesis using 1 2 3 4 by blast
qed

text \<open>An instance: a tick with no results on a canvas that shows a marker, or a label.\<close>

theorem detectFaces_clears_first_witness:
  "model running_app \<noteq> None \<and> backend running_app = ''webgl''
   \<and> canvas running_app
       = Some (new_canvas\<lparr>width := 640, height := 480,
                 surface := [Circle (Fin 1) (Fin 2) (Fin 2) ''red'']\<rparr>)
   \<and> (\<exists>cv'. canvas (detectFaces (Inr []) running_app) = Some cv'
          \<and> take 1 (ctx_calls cv') = [ClearRect (Fin 0) (Fin 0) (Fin 640) (Fin 480)]
          \<and> surface cv' = []
          \<and> canvas (detectFaces (Inr [])
               (running_app\<lparr>canvas := Some (new_canvas\<lparr>width := 640, height := 480,
                   surface := [Label ''Nose'' (Fin 5) (Fin 6) ''14px Arial'' ''blue'']\<rparr>)\<rparr>))
              = Some cv')"
  using detectFaces_clears_first [of running_app
      "new_canvas\<lparr>width := 640, height := 480, surface := [Circle (Fin 1) (Fin 2) (Fin 2) ''red'']\<rparr>"
      "[]" "[Label ''Nose'' (Fin 5) (Fin 6) ''14px Arial'' ''blue'']"]
  by (simp add: running_app_def new_canvas_def number_of_nat_def)

text \<open>
  Claim C6. Rendering a result that has \<^verbatim>\<open>annotations\<close> completes, and its
  \<^verbatim>\<open>fillText\<close> calls are, in this order: \<open>Left Eye\<close> and \<open>Right Eye\<close> at the x of
  the centroid of their group and at its y minus 20, \<open>Nose\<close> at the x of its centroid and
  y plus 10, \<open>Mouth\<close> at the x of its centroid and y plus 20.
\<close>

theorem render_prediction_labels:
  assumes "annotations pr = Some ann"
  shows "fst (render_prediction pr cv) = None
     \<and> text_calls (ctx_calls (snd (render_prediction pr cv)))
     = text_calls (ctx_calls cv) @
       [FillText ''Left Eye'' (fst (getCenter (ann ''leftEyeUpper0'')))
          (num_sub (snd (getCenter (ann ''leftEyeUpper0''))) (Fin 20)),
        FillText ''Right Eye'' (fst (getCenter (ann ''rightEyeUpper0'')))
          (num_sub (snd (getCenter (ann ''rightEyeUpper0''))) (Fin 20)),
        FillText ''Nose'' (fst (getCenter (ann ''noseBottom'')))
          (num_add (snd (getCenter (ann ''noseBottom''))) (Fin 10)),
        FillText ''Mouth'' (fst (getCenter (ann ''lipsUpperOuter'')))
          (num_add (snd (getCenter (ann ''lipsUpperOuter''))) (Fin 20))]"
  using render_prediction_ok [OF assms] text_calls_render_prediction [OF assms] by simp

text \<open>An instance: a result with a nose group of one point and no other group.\<close>

theorem render_prediction_labels_witness:
  "annotations \<lparr>keypoints = [], annotations = Some [''noseBottom'' \<mapsto> [(Fin 30, Fin 40)]]\<rparr>
     = Some [''noseBottom'' \<mapsto> [(Fin 30, Fin 40)]]
   \<and> text_calls (ctx_calls (snd (render_prediction
        \<lparr>keypoints = [], annotations = Some [''noseBottom'' \<mapsto> [(Fin 30, Fin 40)]]\<rparr> new_canvas)))
     = [FillText ''Left Eye'' (Fin 0) (Fin (- 20)), FillText ''Right Eye'' (Fin 0) (Fin (- 20)),
        FillText ''Nose'' (Fin 30) (Fin 50), FillText ''Mouth'' (Fin 0) (Fin 20)]"
  using render_prediction_labels [of
      "\<lparr>keypoints = [], annotations = Some [''noseBottom'' \<mapsto> [(Fin 30, Fin 40)]]\<rparr>"
      "[''noseBottom'' \<mapsto> [(Fin 30, Fin 40)]]" new_canvas]
  by (simp add: new_canvas_def text_calls_def getCenter_def num_sub_def number_of_nat_def
      to_double_0 to_double_numeral to_double_neg_numeral)


section \<open>An error in initialization\<close>

lemma mounted_try_throws_drawing:
  assumes "mounted_try env (data b) = (Some err, a')"
  shows "drawing_calls a' = []"
  using mounted_try_throws(3) [OF assms] by (auto simp: drawing_calls_def new_canvas_def)

text \<open>
  Claim C5. When the body of \<^verbatim>\<open>mounted\<close> throws an error (setting a backend,
  \<^verbatim>\<open>tf.ready\<close>, loading the model, or the camera), \<^verbatim>\<open>this.error\<close> becomes
  \<open>Failed to initialize: \<close> followed by the error's message, and no sequence of later
  events changes the state: \<^verbatim>\<open>estimateFaces\<close> is never called and nothing is ever drawn.
\<close>

theorem mounted_error_fatal:
  assumes "mounted_try env (data b) = (Some err, a')"
  shows "error (mounted env (data b)) = Some (''Failed to initialize: '' @ message err)
         \<and> run evs (mounted env (data b)) = mounted env (data b)
         \<and> EstimateFaces \<notin> set (calls (run evs (mounted env (data b))))
         \<and> drawing_calls (run evs (mounted env (data b))) = []"
proof -
  have d: "mounted env (data b) = a'\<lparr>error := Some (''Failed to initialize: '' @ message err)\<rparr>"
    using assms by (simp add: mounted_def)
  have "idle (mounted env (data b))"
    using mounted_try_throws(1) [OF assms] by (simp add: d idle_def)
  then have r: "run evs (mounted env (data b)) = mounted env (data b)"
    by (rule run_idle)
  have e: "error (mounted env (data b)) = Some (''Failed to initialize: '' @ message err)"
    by (simp add: d)
  have c: "EstimateFaces \<notin> set (calls (mounted env (data b)))"
    using mounted_try_throws(2) [OF assms] by (simp add: d)
  have w: "drawing_calls (mounted env (data b)) = []"
    using mounted_try_throws_drawing [OF assms] by (simp add: d drawing_calls_def)
  show ?thesis unfolding r using e c w by blast
qed

lemma camera_denied_throws:
  "fst (mounted_try env_camera_denied (data '''')) = Some (JsError ''Permission denied'')"
  by (simp add: env_camera_denied_def env_resolving_def mounted_try_def then_do_def
      await_setBackend_def data_def)

text \<open>An instance: the camera is denied, then the video and the display fire events.\<close>

theorem mounted_error_fatal_witness:
  "fst (mounted_try env_camera_denied (data '''')) = Some (JsError ''Permission denied'')
   \<and> error (mounted env_camera_denied (data '''')) = Some ''Failed to initialize: Permission denied''
   \<and> run [LoadedMetadata 640 480 (Inr [bare_face]), AnimationFrame (Inr [bare_face])]
         (mounted env_camera_denied (data ''''))
       = mounted env_camera_denied (data '''')
   \<and> EstimateFaces \<notin> set (calls (run [LoadedMetadata 640 480 (Inr [bare_face]), AnimationFrame (Inr [bare_face])]
         (mounted env_camera_denied (data ''''))))
   \<and> drawing_calls (run [LoadedMetadata 640 480 (Inr [bare_face]), AnimationFrame (Inr [bare_face])]
         (mounted env_camera_denied (data ''''))) = []"
proof -
  obtain a' where t: "mounted_try env_camera_denied (data '''') = (Some (JsError ''Permission denied''), a')"
    using camera_denied_throws by (cases "mounted_try env_camera_denied (data '''')") simp
  note w = mounted_error_fatal [OF t,
      of "[LoadedMetadata 640 480 (Inr [bare_face]), AnimationFrame (Inr [bare_face])]"]
  have e: "error (mounted env_camera_denied (data '''')) = Some ''Failed to initialize: Permission denied''"
    using w by simp
  show ?thesis using w e camera_denied_throws by blast
qed

lemma mounted_cpu_continues:
  "env_setBackend env ''webgl'' = Inr b1 \<Longrightarrow> b1 \<noteq> ''webgl'' \<Longrightarrow>
   env_setBackend env ''cpu'' = Inr ''cpu'' \<Longrightarrow>
     take 3 (calls (mounted env (data b))) = [SetBackend ''webgl'', SetBackend ''cpu'', Ready]"
  by (auto simp: mounted_def mounted_try_def then_do_def await_setBackend_def data_def
      Let_def split: if_splits sum.splits option.splits prod.splits)

text \<open>
  Claim C7, as the code has it. The first call of \<^verbatim>\<open>mounted\<close> is
  \<^verbatim>\<open>tf.setBackend('webgl')\<close>. When that call resolves and \<open>webgl\<close> is active afterwards,
  \<open>cpu\<close> is never requested; when it resolves and another backend is active, the second
  call is \<^verbatim>\<open>tf.setBackend('cpu')\<close>; when that resolves and \<open>cpu\<close> is active,
  initialization goes on with \<^verbatim>\<open>tf.ready()\<close>; when it resolves and \<open>cpu\<close> is not active
  either, the body throws \<open>BackendUnavailable\<close>, the message shown is
  \<open>Failed to initialize: Failed to set any TensorFlow.js backend.\<close>, no further call is
  made, no model is loaded, and no later event changes the state. When a
  \<^verbatim>\<open>tf.setBackend\<close> call rejects, initialization stops there with the error of that
  call in the message (after a rejected \<open>webgl\<close> call \<open>cpu\<close> is not requested), no
  model is loaded, and no later event changes the state.
\<close>

theorem mounted_backend_fallback:
  "take 1 (calls (mounted env (data b))) = [SetBackend ''webgl'']
   \<and> (env_setBackend env ''webgl'' = Inr ''webgl'' \<longrightarrow>
        SetBackend ''cpu'' \<notin> set (calls (mounted env (data b))))
   \<and> (env_setBackend env ''webgl'' = Inr b1 \<and> b1 \<noteq> ''webgl'' \<longrightarrow>
        take 2 (calls (mounted env (data b))) = [SetBackend ''webgl'', SetBackend ''cpu''])
   \<and> (env_setBackend env ''webgl'' = Inr b1 \<and> b1 \<noteq> ''webgl''
        \<and> env_setBackend env ''cpu'' = Inr ''cpu'' \<longrightarrow>
        take 3 (calls (mounted env (data b))) = [SetBackend ''webgl'', SetBackend ''cpu'', Ready])
   \<and> (env_setBackend env ''webgl'' = Inr b1 \<and> b1 \<noteq> ''webgl''
        \<and> env_setBackend env ''cpu'' = Inr b2 \<and> b2 \<noteq> ''cpu'' \<longrightarrow>
        fst (mounted_try env (data b)) = Some BackendUnavailable
        \<and> error (mounted env (data b))
            = Some ''Failed to initialize: Failed to set any TensorFlow.js backend.''
        \<and> calls (mounted env (data b)) = [SetBackend ''webgl'', SetBackend ''cpu'']
        \<and> model (mounted env (data b)) = None
        \<and> run evs (mounted env (data b)) = mounted env (data b))
   \<and> (env_setBackend env ''webgl'' = Inl e \<longrightarrow>
        fst (mounted_try env (data b)) = Some e
        \<and> error (mounted env (data b)) = Some (''Failed to initialize: '' @ message e)
        \<and> calls (mounted env (data b)) = [SetBackend ''webgl'']
        \<and> backend (mounted env (data b)) = b
        \<and> model (mounted env (data b)) = None
        \<and> run evs (mounted env (data b)) = mounted env (data b))
   \<and> (env_setBackend env ''webgl'' = Inr b1 \<and> b1 \<noteq> ''webgl''
        \<and> env_setBackend env ''cpu'' = Inl e \<longrightarrow>
        fst (mounted_try env (data b)) = Some e
        \<and> error (mounted env (data b)) = Some (''Failed to initialize: '' @ message e)
        \<and> calls (mounted env (data b)) = [SetBackend ''webgl'', SetBackend ''cpu'']
        \<and> backend (mounted env (data b)) = b1
        \<and> model (mounted env (data b)) = None
        \<and> run evs (mounted env (data b)) = mounted env (data b))"
proof -
  have none: "fst (mounted_try env (data b)) = Some BackendUnavailable
        \<and> error (mounted env (data b))
            = Some ''Failed to initialize: Failed to set any TensorFlow.js backend.''
        \<and> calls (mounted env (data b)) = [SetBackend ''webgl'', SetBackend ''cpu'']
        \<and> model (mounted env (data b)) = None
        \<and> run evs (mounted env (data b)) = mounted env (data b)"
    if h: "env_setBackend env ''webgl'' = Inr b1" "b1 \<noteq> ''webgl''"
       "env_setBackend env ''cpu'' = Inr b2" "b2 \<noteq> ''cpu''"
    using mounted_rejected [OF mounted_try_no_backend [OF h, of b], of evs]
    by (simp add: BackendUnavailable_def)
  have rej1: "fst (mounted_try env (data b)) = Some e
        \<and> error (mounted env (data b)) = Some (''Failed to initialize: '' @ message e)
        \<and> calls (mounted env (data b)) = [SetBackend ''webgl'']
        \<and> backend (mounted env (data b)) = b
        \<and> model (mounted env (data b)) = None
        \<and> run evs (mounted env (data b)) = mounted env (data b)"
    if h: "env_setBackend env ''webgl'' = Inl e"
  proof -
    have "mounted_try env (data b) = (Some e, (data b)\<lparr>backend := b, calls := [SetBackend ''webgl'']\<rparr>)"
      using mounted_try_webgl_rejects [OF h, of b] by (simp add: data_def)
    from mounted_rejected [OF this, of evs] show ?thesis .
  qed
  have rej2: "fst (mounted_try env (data b)) = Some e
        \<and> error (mounted env (data b)) = Some (''Failed to initialize: '' @ message e)
        \<and> calls (mounted env (data b)) = [SetBackend ''webgl'', SetBackend ''cpu'']
        \<and> backend (mounted env (data b)) = b1
        \<and> model (mounted env (data b)) = None
        \<and> run evs (mounted env (data b)) = mounted env (data b)"
    if h: "env_setBackend env ''webgl'' = Inr b1" "b1 \<noteq> ''webgl''"
       "env_setBackend env ''cpu'' = Inl e"
    using mounted_rejected [OF mounted_try_cpu_rejects [OF h, of b], of evs] .
  show ?thesis
    using none rej1 rej2 mounted_first_call [of env b] mounted_no_fallback [of env b]
      mounted_second_call [of env b1 b] mounted_cpu_continues [of env b1 b]
    by blast
qed

text \<open>
  Five instances: every backend can be activated; only \<open>cpu\<close> can; both calls resolve
  and none is active; every call rejects; \<open>webgl\<close> resolves inactive and \<open>cpu\<close> rejects.
\<close>

theorem mounted_backend_fallback_witness:
  "env_setBackend (env_resolving (\<lambda>name. name)) ''webgl'' = Inr ''webgl''
   \<and> SetBackend ''cpu'' \<notin> set (calls (mounted (env_resolving (\<lambda>name. name)) (data '''')))
   \<and> env_setBackend (env_resolving (\<lambda>name. ''cpu'')) ''webgl'' = Inr ''cpu'' \<and> ''cpu'' \<noteq> ''webgl''
   \<and> env_setBackend (env_resolving (\<lambda>name. ''cpu'')) ''cpu'' = Inr ''cpu''
   \<and> take 3 (calls (mounted (env_resolving (\<lambda>name. ''cpu'')) (data '''')))
       = [SetBackend ''webgl'', SetBackend ''cpu'', Ready]
   \<and> env_setBackend (env_resolving (\<lambda>name. '''')) ''webgl'' = Inr '''' \<and> '''' \<noteq> ''webgl''
   \<and> env_setBackend (env_resolving (\<lambda>name. '''')) ''cpu'' = Inr '''' \<and> '''' \<noteq> ''cpu''
   \<and> take 1 (calls (mounted (env_resolving (\<lambda>name. '''')) (data ''''))) = [SetBackend ''webgl'']
   \<and> fst (mounted_try (env_resolving (\<lambda>name. '''')) (data '''')) = Some BackendUnavailable
   \<and> error (mounted (env_resolving (\<lambda>name. '''')) (data ''''))
       = Some ''Failed to initialize: Failed to set any TensorFlow.js backend.''
   \<and> calls (mounted (env_resolving (\<lambda>name. '''')) (data ''''))
       = [SetBackend ''webgl'', SetBackend ''cpu'']
   \<and> model (mounted (env_resolving (\<lambda>name. '''')) (data '''')) = None
   \<and> run [LoadedMetadata 640 480 (Inr [bare_face]), AnimationFrame (Inr [])]
         (mounted (env_resolving (\<lambda>name. '''')) (data ''''))
       = mounted (env_resolving (\<lambda>name. '''')) (data '''')
   \<and> env_setBackend env_no_backend ''webgl''
       = Inl (JsError ''Backend name webgl not found in registry'')
   \<and> error (mounted env_no_backend (data ''''))
       = Some ''Failed to initialize: Backend name webgl not found in registry''
   \<and> calls (mounted env_no_backend (data '''')) = [SetBackend ''webgl'']
   \<and> run [LoadedMetadata 640 480 (Inr [bare_face]), AnimationFrame (Inr [])]
         (mounted env_no_backend (data ''''))
       = mounted env_no_backend (data '''')
   \<and> env_setBackend env_cpu_rejected ''webgl'' = Inr ''''
   \<and> env_setBackend env_cpu_rejected ''cpu'' = Inl (JsError ''cpu backend not found'')
   \<and> error (mounted env_cpu_rejected (data ''''))
       = Some ''Failed to initialize: cpu backend not found''
   \<and> calls (mounted env_cpu_rejected (data '''')) = [SetBackend ''webgl'', SetBackend ''cpu'']
   \<and> run [LoadedMetadata 640 480 (Inr [bare_face]), AnimationFrame (Inr [])]
         (mounted env_cpu_rejected (data ''''))
       = mounted env_cpu_rejected (data '''')"
proof -
  have n: "env_setBackend env_no_backend ''webgl''
       = Inl (JsError ''Backend name webgl not found in registry'')"
    by (simp add: env_no_backend_def)
  have c: "env_setBackend env_cpu_rejected ''webgl'' = Inr ''''"
    "env_setBackend env_cpu_rejected ''cpu'' = Inl (JsError ''cpu backend not found'')"
    by (simp_all add: env_cpu_rejected_def)
  show ?thesis
    using n c
      mounted_backend_fallback [of "env_resolving (\<lambda>name. name)" "''''" "''webgl''" "''webgl''" "[]"
        "JsError ''''"]
      mounted_backend_fallback [of "env_resolving (\<lambda>name. ''cpu'')" "''''" "''cpu''" "''cpu''" "[]"
        "JsError ''''"]
      mounted_backend_fallback [of "env_resolving (\<lambda>name. '''')" "''''" "''''" "''''"
        "[LoadedMetadata 640 480 (Inr [bare_face]), AnimationFrame (Inr [])]" "JsError ''''"]
      mounted_backend_fallback [of env_no_backend "''''" "''''" "''''"
        "[LoadedMetadata 640 480 (Inr [bare_face]), AnimationFrame (Inr [])]"
        "JsError ''Backend name webgl not found in registry''"]
      mounted_backend_fallback [of env_cpu_rejected "''''" "''''" "''''"
        "[LoadedMetadata 640 480 (Inr [bare_face]), AnimationFrame (Inr [])]"
        "JsError ''cpu backend not found''"]
    by (simp add: env_resolving_def)
qed

text \<open>
  Claim C7 as stated fails when \<^verbatim>\<open>tf.setBackend('webgl')\<close> rejects: \<open>webgl\<close> is not
  active afterwards and \<open>cpu\<close> is not requested; no backend is activated and the error is
  the rejection, not \<open>BackendUnavailable\<close>.
\<close>

theorem mounted_webgl_rejected_counterexample:
  "backend (mounted env_no_backend (data '''')) \<noteq> ''webgl''
   \<and> SetBackend ''cpu'' \<notin> set (calls (mounted env_no_backend (data '''')))
   \<and> backend (mounted env_no_backend (data '''')) \<noteq> ''cpu''
   \<and> fst (mounted_try env_no_backend (data '''')) \<noteq> Some BackendUnavailable
   \<and> error (mounted env_no_backend (data ''''))
       = Some ''Failed to initialize: Backend name webgl not found in registry''"
  by (simp add: mounted_def mounted_try_def then_do_def await_setBackend_def data_def
      env_no_backend_def BackendUnavailable_def)


section \<open>One face per frame\<close>






end
